theory Spec2Isabelle
  imports Main "HOL-Library.Multiset"
begin

section \<open>Python values, strings and exceptions\<close>

text \<open>
  The scanners are Python scripts. A Python \<open>str\<close> is modelled as a \<open>string\<close> whose
  characters are code points below 256; on that alphabet the definitions below follow
  what \<open>str.strip\<close>, \<open>str.lower\<close> and \<open>int\<close> compute.
\<close>

datatype exn =
    BluetoothError string
  | TypeError string
  | ValueError string
  | EOFError string
  | OtherException string
  | KeyboardInterrupt
  | SystemExit int

text \<open>\<open>except Exception\<close> catches every class but the two that derive from
  \<open>BaseException\<close> directly.\<close>

fun is_Exception :: "exn \<Rightarrow> bool" where
  "is_Exception KeyboardInterrupt = False"
| "is_Exception (SystemExit _) = False"
| "is_Exception _ = True"

text \<open>\<open>str(e)\<close>, the text an f-string prints for an exception.\<close>

fun exn_str :: "exn \<Rightarrow> string" where
  "exn_str (BluetoothError m) = m"
| "exn_str (TypeError m) = m"
| "exn_str (ValueError m) = m"
| "exn_str (EOFError m) = m"
| "exn_str (OtherException m) = m"
| "exn_str KeyboardInterrupt = []"
| "exn_str (SystemExit n) = []"

datatype 'a result = Returned 'a | Raised exn

definition nl :: string where
  "nl = [CHR 0x0A]"

definition squote :: string where
  "squote = [CHR 0x27]"

text \<open>\<open>str.isspace\<close> on one character.\<close>

definition py_isspace :: "char \<Rightarrow> bool" where
  "py_isspace c = (let n = (of_char c :: nat) in
     (9 \<le> n \<and> n \<le> 13) \<or> (28 \<le> n \<and> n \<le> 32) \<or> n = 133 \<or> n = 160)"

definition py_strip :: "string \<Rightarrow> string" where
  "py_strip s = rev (dropWhile py_isspace (rev (dropWhile py_isspace s)))"

definition py_lower_char :: "char \<Rightarrow> char" where
  "py_lower_char c = (let n = (of_char c :: nat) in
     if (65 \<le> n \<and> n \<le> 90) \<or> (192 \<le> n \<and> n \<le> 222 \<and> n \<noteq> 215)
     then char_of (n + 32) else c)"

definition py_lower :: "string \<Rightarrow> string" where
  "py_lower s = map py_lower_char s"

definition py_isdigit :: "char \<Rightarrow> bool" where
  "py_isdigit c = (let n = (of_char c :: nat) in 48 \<le> n \<and> n \<le> 57)"

definition digit_val :: "char \<Rightarrow> int" where
  "digit_val c = int (of_char c) - 48"

text \<open>
  The digits of a decimal literal after the first one: digits, each optionally preceded by
  a single underscore. \<open>None\<close> is the \<open>ValueError\<close> of \<open>int\<close>.
\<close>

fun parse_digits :: "int \<Rightarrow> string \<Rightarrow> int option" where
  "parse_digits acc [] = Some acc"
| "parse_digits acc [c] =
     (if py_isdigit c then Some (acc * 10 + digit_val c) else None)"
| "parse_digits acc (c # d # ds) =
     (if c = CHR ''_'' then
        (if py_isdigit d then parse_digits (acc * 10 + digit_val d) ds else None)
      else if py_isdigit c then parse_digits (acc * 10 + digit_val c) (d # ds)
      else None)"

definition parse_unsigned :: "string \<Rightarrow> int option" where
  "parse_unsigned s = (case s of [] \<Rightarrow> None
     | d # ds \<Rightarrow> if py_isdigit d then parse_digits (digit_val d) ds else None)"

text \<open>
  \<open>int(s)\<close> in base 10: surrounding whitespace is dropped, then an optional sign and the
  digits. The interpreter's configurable limit on the number of digits is not modelled; a
  line beyond it raises \<open>ValueError\<close> as well.
\<close>

definition py_int :: "string \<Rightarrow> int option" where
  "py_int s = (case py_strip s of [] \<Rightarrow> None
     | c # cs \<Rightarrow>
         if c = CHR ''+'' then parse_unsigned cs
         else if c = CHR ''-'' then map_option uminus (parse_unsigned cs)
         else parse_unsigned (c # cs))"

text \<open>\<open>str(n)\<close> for an integer.\<close>

fun str_nat :: "nat \<Rightarrow> string" where
  "str_nat n = (if n < 10 then [''0123456789'' ! n]
     else str_nat (n div 10) @ [''0123456789'' ! (n mod 10)])"

declare str_nat.simps [simp del]

definition str_int :: "int \<Rightarrow> string" where
  "str_int i = (if i < 0 then CHR ''-'' # str_nat (nat (- i)) else str_nat (nat i))"

section \<open>Console\<close>

text \<open>
  Standard input is the list of what each \<open>input()\<close> call meets: a line, or an interrupt
  from the keyboard. When the list is exhausted \<open>input()\<close> raises \<open>EOFError\<close>.
  Standard output is the list of the calls that wrote to it.
\<close>

datatype stdin_event = Line string | Interrupt

datatype out_item = PrintLn string | PrintNoNl string | Prompt string

section \<open>Interactive selector\<close>

record 'd selection =
  outcome :: "'d option result"
  unread :: "stdin_event list"
  printed :: "out_item list"
  catalog :: "'d list"

definition emit :: "out_item list \<Rightarrow> 'd selection \<Rightarrow> 'd selection" where
  "emit items r = r\<lparr>printed := items @ printed r\<rparr>"

definition invalid_notice :: string where
  "invalid_notice = ''[!] Invalid input. Please enter a number or '' @ squote @ ''q'' @ squote @ '' to quit.''"

definition range_notice :: "nat \<Rightarrow> string" where
  "range_notice n = ''[!] Please enter a number between 1 and '' @ str_nat n"

definition cancel_notice :: string where
  "cancel_notice = nl @ ''[!] Cancelled by user.''"

text \<open>
  The \<open>while True\<close> loop of \<open>select_device\<close>, one equation per thing \<open>input()\<close> can do.
  Both scripts have the same loop and differ in the prompt only.
\<close>

fun select_loop :: "string \<Rightarrow> 'd list \<Rightarrow> stdin_event list \<Rightarrow> 'd selection" where
  "select_loop p devices [] =
     \<lparr>outcome = Raised (EOFError ''EOF when reading a line''), unread = [],
      printed = [Prompt p], catalog = devices\<rparr>"
| "select_loop p devices (Interrupt # rest) =
     \<lparr>outcome = Returned None, unread = rest,
      printed = [Prompt p, PrintLn cancel_notice], catalog = devices\<rparr>"
| "select_loop p devices (Line l # rest) =
     (let choice = py_strip l in
      if py_lower choice = ''q'' then
        \<lparr>outcome = Returned None, unread = rest, printed = [Prompt p], catalog = devices\<rparr>
      else
        (case py_int choice of
           None \<Rightarrow> emit [Prompt p, PrintLn invalid_notice] (select_loop p devices rest)
         | Some device_num \<Rightarrow>
             if 1 \<le> device_num \<and> device_num \<le> int (length devices) then
               \<lparr>outcome = Returned (Some (devices ! nat (device_num - 1))), unread = rest,
                printed = [Prompt p], catalog = devices\<rparr>
             else emit [Prompt p, PrintLn (range_notice (length devices))]
                    (select_loop p devices rest)))"

declare select_loop.simps(3) [simp del]

definition select_prompt :: string where
  "select_prompt = ''[?] Enter device number to connect (or '' @ squote @ ''q'' @ squote @ '' to quit): ''"

definition select_prompt_bleak :: string where
  "select_prompt_bleak = ''[?] Enter device number to inspect (or '' @ squote @ ''q'' @ squote @ '' to quit): ''"

definition select_device :: "'d list \<Rightarrow> stdin_event list \<Rightarrow> 'd selection" where
  "select_device devices inputs = select_loop select_prompt devices inputs"

definition select_device_bleak :: "'d list \<Rightarrow> stdin_event list \<Rightarrow> 'd selection" where
  "select_device_bleak devices inputs = select_loop select_prompt_bleak devices inputs"

section \<open>Python data\<close>

text \<open>
  The values a service record can hold: what PyBluez puts into the dictionaries returned by
  \<open>find_service\<close> (strings, integers, \<open>None\<close>, lists and tuples of those) and
  booleans.
\<close>

datatype pyval =
    PNone
  | PBool bool
  | PInt int
  | PStr string
  | PList "pyval list"
  | PTuple "pyval list"

text \<open>Truth value of an object, as tested by \<open>if x:\<close>.\<close>

fun truthy :: "pyval \<Rightarrow> bool" where
  "truthy PNone = False"
| "truthy (PBool b) = b"
| "truthy (PInt i) = (i \<noteq> 0)"
| "truthy (PStr s) = (s \<noteq> [])"
| "truthy (PList xs) = (xs \<noteq> [])"
| "truthy (PTuple xs) = (xs \<noteq> [])"

text \<open>\<open>sep.join(xs)\<close>.\<close>

fun py_join :: "string \<Rightarrow> string list \<Rightarrow> string" where
  "py_join sep [] = []"
| "py_join sep [x] = x"
| "py_join sep (x # y # ys) = x @ sep @ py_join sep (y # ys)"

definition hex_digit :: "nat \<Rightarrow> char" where
  "hex_digit n = ''0123456789abcdef'' ! n"

fun hex_nat :: "nat \<Rightarrow> string" where
  "hex_nat n = (if n < 16 then [hex_digit n]
     else hex_nat (n div 16) @ [hex_digit (n mod 16)])"

declare hex_nat.simps [simp del]

text \<open>\<open>hex(i)\<close>.\<close>

definition py_hex :: "int \<Rightarrow> string" where
  "py_hex i = (if i < 0 then ''-0x'' @ hex_nat (nat (- i)) else ''0x'' @ hex_nat (nat i))"

definition backslash :: char where
  "backslash = CHR 0x5C"

definition py_isprintable :: "char \<Rightarrow> bool" where
  "py_isprintable c = (let n = (of_char c :: nat) in
     (32 \<le> n \<and> n < 127) \<or> (161 \<le> n \<and> n \<noteq> 173))"

text \<open>\<open>repr\<close> of a string: the quote is the double quote only when the string has a
  single quote and no double quote.\<close>

definition repr_char :: "char \<Rightarrow> char \<Rightarrow> string" where
  "repr_char quote c = (let n = (of_char c :: nat) in
     if c = quote \<or> c = backslash then [backslash, c]
     else if n = 9 then [backslash, CHR ''t'']
     else if n = 10 then [backslash, CHR ''n'']
     else if n = 13 then [backslash, CHR ''r'']
     else if py_isprintable c then [c]
     else [backslash, CHR ''x'', hex_digit (n div 16), hex_digit (n mod 16)])"

definition repr_str :: "string \<Rightarrow> string" where
  "repr_str s = (let quote = (if CHR 0x27 \<in> set s \<and> CHR 0x22 \<notin> set s then CHR 0x22 else CHR 0x27)
     in quote # concat (map (repr_char quote) s) @ [quote])"

fun py_repr :: "pyval \<Rightarrow> string" where
  "py_repr PNone = ''None''"
| "py_repr (PBool b) = (if b then ''True'' else ''False'')"
| "py_repr (PInt i) = str_int i"
| "py_repr (PStr s) = repr_str s"
| "py_repr (PList xs) = ''['' @ py_join '', '' (map py_repr xs) @ '']''"
| "py_repr (PTuple xs) =
     ''('' @ py_join '', '' (map py_repr xs) @ (if length xs = 1 then '','' else []) @ '')''"

text \<open>\<open>str(v)\<close>, which is also what an f-string field \<open>{v}\<close> prints.\<close>

fun py_str :: "pyval \<Rightarrow> string" where
  "py_str (PStr s) = s"
| "py_str v = py_repr v"

text \<open>
  Iterating over an object: the items it yields, and the exception that ends the
  iteration if one is raised. A string yields its characters; \<open>None\<close>, booleans and
  integers are not iterable.
\<close>

type_synonym iteration = "pyval list \<times> exn option"

fun py_iter :: "pyval \<Rightarrow> iteration" where
  "py_iter (PList xs) = (xs, None)"
| "py_iter (PTuple xs) = (xs, None)"
| "py_iter (PStr s) = (map (\<lambda>c. PStr [c]) s, None)"
| "py_iter PNone = ([], Some (TypeError (squote @ ''NoneType'' @ squote @ '' object is not iterable'')))"
| "py_iter (PBool b) = ([], Some (TypeError (squote @ ''bool'' @ squote @ '' object is not iterable'')))"
| "py_iter (PInt i) = ([], Some (TypeError (squote @ ''int'' @ squote @ '' object is not iterable'')))"

text \<open>A \<open>dict\<close> with string keys, in insertion order. Assigning to a key that is present
  replaces its value in place.\<close>

type_synonym pydict = "(string \<times> pyval) list"

fun dict_set :: "string \<Rightarrow> pyval \<Rightarrow> pydict \<Rightarrow> pydict" where
  "dict_set k v [] = [(k, v)]"
| "dict_set k v ((k', v') # d) = (if k = k' then (k, v) # d else (k', v') # dict_set k v d)"

section \<open>Protocol descriptors\<close>

text \<open>
  The protocol identifiers are constants of the PyBluez module, which is not part of the
  repository: they are parameters here. \<open>pybluez_uuids\<close> gives the values PyBluez
  defines.
\<close>

record uuids =
  L2CAP_UUID :: string
  RFCOMM_UUID :: string
  OBEX_UUID :: string
  TCP_UUID :: string
  UDP_UUID :: string

definition pybluez_uuids :: uuids where
  "pybluez_uuids = \<lparr>L2CAP_UUID = ''0100'', RFCOMM_UUID = ''0003'', OBEX_UUID = ''0008'',
                     TCP_UUID = ''0004'', UDP_UUID = ''0002''\<rparr>"

text \<open>\<open>isinstance(x, (list, tuple))\<close>, giving the items.\<close>

fun seq_items :: "pyval \<Rightarrow> pyval list option" where
  "seq_items (PList xs) = Some xs"
| "seq_items (PTuple xs) = Some xs"
| "seq_items _ = None"

text \<open>The body of the \<open>for\<close> loop of \<open>parse_protocol_descriptor\<close>.\<close>

definition visit :: "uuids \<Rightarrow> pydict \<Rightarrow> pyval \<Rightarrow> pydict" where
  "visit B protocols proto_desc =
     (case seq_items proto_desc of
        None \<Rightarrow> protocols
      | Some [] \<Rightarrow> protocols
      | Some (proto_uuid # params) \<Rightarrow>
          if proto_uuid = PStr (L2CAP_UUID B) then
            (let p = dict_set ''L2CAP'' (PBool True) protocols
             in if params \<noteq> [] then dict_set ''PSM'' (hd params) p else p)
          else if proto_uuid = PStr (RFCOMM_UUID B) then
            (let p = dict_set ''RFCOMM'' (PBool True) protocols
             in if params \<noteq> [] then dict_set ''Channel'' (hd params) p else p)
          else if proto_uuid = PStr (OBEX_UUID B) then dict_set ''OBEX'' (PBool True) protocols
          else if proto_uuid = PStr (TCP_UUID B) then dict_set ''TCP'' (PBool True) protocols
          else if proto_uuid = PStr (UDP_UUID B) then dict_set ''UDP'' (PBool True) protocols
          else protocols)"

text \<open>
  The \<open>try\<close> block run on an iteration: the flags collected from the items yielded, and
  the exception that ended the iteration, if any. The \<open>except Exception\<close> clause then
  adds the \<open>parse_error\<close> entry; an exception that is not an \<open>Exception\<close> propagates.
\<close>

definition parse_iteration :: "uuids \<Rightarrow> iteration \<Rightarrow> pydict result" where
  "parse_iteration B it =
     (let protocols = foldl (visit B) [] (fst it) in
      case snd it of
        None \<Rightarrow> Returned protocols
      | Some e \<Rightarrow>
          if is_Exception e then Returned (dict_set ''parse_error'' (PStr (exn_str e)) protocols)
          else Raised e)"

definition parse_protocol_descriptor :: "uuids \<Rightarrow> pyval \<Rightarrow> pydict result" where
  "parse_protocol_descriptor B proto_desc_list = parse_iteration B (py_iter proto_desc_list)"

text \<open>The keys the loop body can set.\<close>

definition flag_names :: "string set" where
  "flag_names = {''L2CAP'', ''PSM'', ''RFCOMM'', ''Channel'', ''OBEX'', ''TCP'', ''UDP''}"

section \<open>Service class names\<close>

definition service_classes :: "(string \<times> string) list" where
  "service_classes =
    [(''0x1101'', ''Serial Port Profile (SPP)''),
     (''0x1105'', ''OBEX Object Push''),
     (''0x1106'', ''OBEX File Transfer''),
     (''0x110a'', ''Audio Source''),
     (''0x110b'', ''Audio Sink''),
     (''0x110c'', ''A/V Remote Control Target''),
     (''0x110e'', ''A/V Remote Control''),
     (''0x110f'', ''Video Conferencing''),
     (''0x1112'', ''Headset - Audio Gateway (AG)''),
     (''0x1115'', ''Personal Area Network (PANU)''),
     (''0x1116'', ''Network Access Point (NAP)''),
     (''0x1117'', ''Group Network (GN)''),
     (''0x111e'', ''Handsfree''),
     (''0x111f'', ''Handsfree Audio Gateway''),
     (''0x1124'', ''Human Interface Device (HID)''),
     (''0x1126'', ''HID Keyboard''),
     (''0x1127'', ''HID Mouse''),
     (''0x112d'', ''SIM Access''),
     (''0x112f'', ''Phonebook Access (PBAP)''),
     (''0x1130'', ''Phonebook Access PSE''),
     (''0x1132'', ''Message Access Server''),
     (''0x1203'', ''Generic Audio'')]"

text \<open>
  The normalisation \<open>uuid if isinstance(uuid, str) else hex(uuid) if isinstance(uuid, int)
  else str(uuid)\<close>; a boolean is an instance of \<open>int\<close>.
\<close>

fun uuid_str :: "pyval \<Rightarrow> string" where
  "uuid_str (PStr s) = s"
| "uuid_str (PInt i) = py_hex i"
| "uuid_str (PBool b) = py_hex (if b then 1 else 0)"
| "uuid_str v = py_str v"

definition get_service_class_name :: "pyval \<Rightarrow> string" where
  "get_service_class_name uuid =
     (case map_of service_classes (uuid_str uuid) of
        Some label \<Rightarrow> label
      | None \<Rightarrow> uuid_str uuid)"

section \<open>Sequencing of printing steps\<close>

text \<open>
  A step of a function body: what it wrote, and the exception it raised, if any. Steps run
  in order up to the first one that raises.
\<close>

type_synonym action = "out_item list \<times> exn option"

definition say :: "string \<Rightarrow> action" where
  "say s = ([PrintLn s], None)"

definition say_no_nl :: "string \<Rightarrow> action" where
  "say_no_nl s = ([PrintNoNl s], None)"

definition skip :: action where
  "skip = ([], None)"

definition raise :: "exn \<Rightarrow> action" where
  "raise e = ([], Some e)"

fun run_all :: "action list \<Rightarrow> action" where
  "run_all [] = ([], None)"
| "run_all (a # as) =
     (case snd a of
        Some e \<Rightarrow> a
      | None \<Rightarrow> (fst a @ fst (run_all as), snd (run_all as)))"

text \<open>\<open>s.ljust(n)\<close>, the padding of the format specification \<open><n\<close>.\<close>

definition ljust :: "nat \<Rightarrow> string \<Rightarrow> string" where
  "ljust n s = s @ replicate (n - length s) CHR '' ''"

section \<open>Service report of the classic scanner\<close>

type_synonym service = "string \<rightharpoonup> pyval"

text \<open>\<open>d.get(key, default)\<close>.\<close>

definition dict_get :: "service \<Rightarrow> string \<Rightarrow> pyval \<Rightarrow> pyval" where
  "dict_get d key dflt = (case d key of None \<Rightarrow> dflt | Some v \<Rightarrow> v)"

text \<open>The strings collected from the flag set: a true boolean by its key, a false one not
  at all, any other value as \<open>key=value\<close>.\<close>

fun proto_str :: "string \<times> pyval \<Rightarrow> string list" where
  "proto_str (key, PBool b) = (if b then [key] else [])"
| "proto_str (key, v) = [key @ ''='' @ py_str v]"

definition proto_strs :: "pydict \<Rightarrow> string list" where
  "proto_strs protocols = concat (map proto_str protocols)"

text \<open>
  The body of the loop over the services in \<open>list_sdp_services\<close>: the block printed for
  service number \<open>idx\<close>.
\<close>

definition render_service :: "uuids \<Rightarrow> nat \<Rightarrow> service \<Rightarrow> action" where
  "render_service B idx service = run_all
     [say (nl @ ''Service #'' @ str_nat idx),
      say (replicate 80 CHR ''-''),
      say (''  Name:        '' @ py_str (dict_get service ''name'' (PStr ''<Unnamed Service>''))),
      (let description = dict_get service ''description'' (PStr []) in
       if truthy description then say (''  Description: '' @ py_str description) else skip),
      (let provider = dict_get service ''provider'' (PStr []) in
       if truthy provider then say (''  Provider:    '' @ py_str provider) else skip),
      (let service_id = dict_get service ''service-id'' (PStr []) in
       if truthy service_id then say (''  Service ID:  '' @ py_str service_id) else skip),
      (let classes = dict_get service ''service-classes'' (PList []) in
       if truthy classes then
         run_all [say_no_nl ''  Classes:     '',
                  (case snd (py_iter classes) of
                     Some e \<Rightarrow> raise e
                   | None \<Rightarrow> say (py_join '', ''
                       (map (\<lambda>sc. get_service_class_name (PStr (py_str sc)))
                            (fst (py_iter classes)))))]
       else skip),
      (let profiles = dict_get service ''profiles'' (PList []) in
       if truthy profiles then say (''  Profiles:    '' @ py_str profiles) else skip),
      (let proto_desc = dict_get service ''protocol'' PNone in
       if truthy proto_desc then
         (case parse_protocol_descriptor B proto_desc of
            Raised e \<Rightarrow> raise e
          | Returned protocols \<Rightarrow>
              if protocols \<noteq> [] then
                run_all [say_no_nl ''  Protocols:   '', say (py_join '', '' (proto_strs protocols))]
              else skip)
       else skip),
      (let host = dict_get service ''host'' (PStr []) in
       if truthy host then say (''  Host:        '' @ py_str host) else skip),
      (let port = dict_get service ''port'' (PStr []) in
       if truthy port then say (''  Port:        '' @ py_str port) else skip)]"

text \<open>
  The two \<open>except\<close> clauses of \<open>list_sdp_services\<close>: a \<open>BluetoothError\<close>, then any other
  \<open>Exception\<close>; anything else propagates.
\<close>

definition sdp_error_notice :: "exn \<Rightarrow> string" where
  "sdp_error_notice e = (case e of
       BluetoothError m \<Rightarrow> ''[!] Bluetooth error while querying services: '' @ m
     | _ \<Rightarrow> ''[!] Error while querying SDP services: '' @ exn_str e)"

definition sdp_handlers :: "action \<Rightarrow> action" where
  "sdp_handlers body = (case snd body of
       None \<Rightarrow> body
     | Some e \<Rightarrow>
         if is_Exception e then (fst body @ [PrintLn (sdp_error_notice e)], None)
         else body)"

definition list_sdp_services ::
  "uuids \<Rightarrow> (string \<Rightarrow> service list result) \<Rightarrow> string \<Rightarrow> string \<Rightarrow> action" where
  "list_sdp_services B find_service device_address device_name = run_all
     [say (nl @ ''[*] Querying SDP services on '' @ squote @ device_name @ squote
             @ '' ('' @ device_address @ '')...''),
      say (''[*] This may take a moment...'' @ nl),
      sdp_handlers
        (case find_service device_address of
           Raised e \<Rightarrow> raise e
         | Returned services \<Rightarrow>
             if services = [] then say ''[!] No SDP services found on this device.''
             else run_all
               ([say (''[+] Found '' @ str_nat (length services) @ '' service(s):'' @ nl),
                 say (replicate 80 CHR ''='')]
                @ map (\<lambda>(idx, service). render_service B idx service)
                      (zip [1 ..< Suc (length services)] services)
                @ [say (nl @ replicate 80 CHR ''=''),
                   say (''[+] Total services listed: '' @ str_nat (length services) @ nl)]))]"

section \<open>The classic scanner\<close>

text \<open>
  The PyBluez calls the script makes: \<open>bluetooth.discover_devices\<close> with the scan
  duration (names looked up, classes not, so that it gives pairs of address and name), and
  \<open>bluetooth.find_service\<close> with the address. Each returns or raises.
\<close>

type_synonym device = "string \<times> string option"

record backend =
  bt_discover_devices :: "int \<Rightarrow> device list result"
  bt_find_service :: "string \<Rightarrow> service list result"

definition print_banner :: "out_item list" where
  "print_banner =
     [PrintLn (replicate 60 CHR ''=''),
      PrintLn ''  Bluetooth Device Scanner & SDP Service Lister'',
      PrintLn (replicate 60 CHR ''=''),
      PrintLn []]"

definition discover_devices :: "backend \<Rightarrow> int \<Rightarrow> out_item list \<times> device list result" where
  "discover_devices bk duration =
     (let out = [PrintLn (''[*] Scanning for Bluetooth devices (duration: '' @ str_int duration @ ''s)...''),
                 PrintLn (''[*] Please wait...'' @ nl)]
      in case bt_discover_devices bk duration of
           Returned nearby_devices \<Rightarrow> (out, Returned nearby_devices)
         | Raised e \<Rightarrow>
             if is_Exception e then
               (out @ [PrintLn (''[!] Error during device discovery: '' @ exn_str e)], Returned [])
             else (out, Raised e))"

text \<open>\<open>name if name else "<Unknown>"\<close>.\<close>

definition name_or_unknown :: "string option \<Rightarrow> string" where
  "name_or_unknown name = (case name of
       None \<Rightarrow> ''<Unknown>''
     | Some n \<Rightarrow> if n \<noteq> [] then n else ''<Unknown>'')"

definition display_devices :: "device list \<Rightarrow> out_item list" where
  "display_devices devices =
     (if devices = [] then [PrintLn ''[!] No devices found.'']
      else
        [PrintLn (''[+] Found '' @ str_nat (length devices) @ '' device(s):'' @ nl),
         PrintLn (ljust 4 ''#'' @ '' '' @ ljust 30 ''Name'' @ '' '' @ ljust 20 ''Address''),
         PrintLn (replicate 60 CHR ''-'')]
        @ map (\<lambda>(idx, (addr, name)).
                 PrintLn (ljust 4 (str_nat idx) @ '' '' @ ljust 30 (name_or_unknown name)
                          @ '' '' @ ljust 20 addr))
              (zip [1 ..< Suc (length devices)] devices)
        @ [PrintLn []])"

definition no_devices_checklist :: "out_item list" where
  "no_devices_checklist =
     [PrintLn ''[!] No devices found. Please ensure:'',
      PrintLn ''    - Bluetooth is enabled on this computer'',
      PrintLn ''    - Target devices are in pairing/discoverable mode'',
      PrintLn ''    - Target devices are within range'']"

text \<open>A run of \<open>main\<close>: what it wrote, the exception it ended with (\<open>sys.exit(n)\<close>
  raises \<open>SystemExit\<close>), and the input it did not read.\<close>

record run =
  written :: "out_item list"
  raised :: "exn option"
  stdin_left :: "stdin_event list"

definition main :: "uuids \<Rightarrow> backend \<Rightarrow> stdin_event list \<Rightarrow> run" where
  "main B bk inputs =
     (let found = discover_devices bk 8;
          out1 = print_banner @ fst found
      in case snd found of
           Raised e \<Rightarrow> \<lparr>written = out1, raised = Some e, stdin_left = inputs\<rparr>
         | Returned devices \<Rightarrow>
             if devices = [] then
               \<lparr>written = out1 @ no_devices_checklist, raised = Some (SystemExit 1),
                stdin_left = inputs\<rparr>
             else
               (let sel = select_device devices inputs;
                    out2 = out1 @ display_devices devices @ printed sel
                in case outcome sel of
                     Raised e \<Rightarrow> \<lparr>written = out2, raised = Some e, stdin_left = unread sel\<rparr>
                   | Returned None \<Rightarrow>
                       \<lparr>written = out2 @ [PrintLn ''[*] Exiting...''],
                        raised = Some (SystemExit 0), stdin_left = unread sel\<rparr>
                   | Returned (Some (device_address, name)) \<Rightarrow>
                       (let device_name = name_or_unknown name;
                            out3 = out2 @ [PrintLn (nl @ ''[+] Selected: '' @ device_name
                                                    @ '' ('' @ device_address @ '')'')];
                            listing = list_sdp_services B (bt_find_service bk)
                                        device_address device_name
                        in case snd listing of
                             Some e \<Rightarrow> \<lparr>written = out3 @ fst listing, raised = Some e,
                                        stdin_left = unread sel\<rparr>
                           | None \<Rightarrow> \<lparr>written = out3 @ fst listing @ [PrintLn ''[*] Scan complete!''],
                                      raised = None, stdin_left = unread sel\<rparr>)))"

text \<open>
  The \<open>if __name__ == "__main__"\<close> block: the output of the process and its exit status.
  \<open>SystemExit\<close> is not an \<open>Exception\<close>, so it passes both handlers.
\<close>

definition script :: "uuids \<Rightarrow> backend \<Rightarrow> stdin_event list \<Rightarrow> out_item list \<times> int" where
  "script B bk inputs =
     (let r = main B bk inputs
      in case raised r of
           None \<Rightarrow> (written r, 0)
         | Some KeyboardInterrupt \<Rightarrow>
             (written r @ [PrintLn (nl @ nl @ ''[!] Interrupted by user. Exiting...'')], 0)
         | Some (SystemExit n) \<Rightarrow> (written r, n)
         | Some e \<Rightarrow> (written r @ [PrintLn (nl @ ''[!] Fatal error: '' @ exn_str e)], 1))"

section \<open>Discovery in the Bleak scanner\<close>

text \<open>
  \<open>BleakScanner.discover\<close> with \<open>return_adv=True\<close> gives a dictionary from address to a
  pair of device and advertisement data; its items, in order, are triples here. A device
  has an address and a name that may be \<open>None\<close>. The advertisement data either have the
  attribute \<open>rssi\<close>, an integer, or do not have it (\<open>None\<close> below).
\<close>

type_synonym ble_item = "string \<times> (string \<times> string option) \<times> int option"

type_synonym ble_device = "string \<times> string \<times> int"

fun device_entry :: "ble_item \<Rightarrow> ble_device" where
  "device_entry (addr, (address, name), rssi_attr) =
     (address, name_or_unknown name, (case rssi_attr of Some r \<Rightarrow> r | None \<Rightarrow> 0))"

fun rssi_of :: "ble_device \<Rightarrow> int" where
  "rssi_of (address, name, rssi) = rssi"

text \<open>\<open>xs.sort(key=key, reverse=True)\<close>: a stable sort into decreasing order of the key.\<close>

definition py_sort_desc :: "('a \<Rightarrow> int) \<Rightarrow> 'a list \<Rightarrow> 'a list" where
  "py_sort_desc key xs = sort_key (\<lambda>x. - key x) xs"

definition discover_devices_bleak ::
  "(int \<Rightarrow> ble_item list result) \<Rightarrow> int \<Rightarrow> out_item list \<times> ble_device list result" where
  "discover_devices_bleak scan duration =
     (let out = [PrintLn (''[*] Scanning for Bluetooth devices (duration: '' @ str_int duration @ ''s)...''),
                 PrintLn (''[*] Please wait...'' @ nl)]
      in case scan duration of
           Returned devices \<Rightarrow> (out, Returned (py_sort_desc rssi_of (map device_entry devices)))
         | Raised e \<Rightarrow>
             if is_Exception e then
               (out @ [PrintLn (''[!] Error during device discovery: '' @ exn_str e)], Returned [])
             else (out, Raised e))"

text \<open>The BLE scenario of the specification: readings -70, -40 and none.\<close>

definition ble_scenario :: "ble_item list" where
  "ble_scenario =
     [(''A'', (''A'', Some ''Far''), Some (- 70)),
      (''B'', (''B'', Some ''Near''), Some (- 40)),
      (''C'', (''C'', Some ''Silent''), None)]"

text \<open>A selection that is the catalog element at the index read from the last line consumed.\<close>

definition picked :: "'d list \<Rightarrow> stdin_event list \<Rightarrow> 'd selection \<Rightarrow> bool" where
  "picked devices inputs sel \<longleftrightarrow>
     (\<exists>d pre l n. outcome sel = Returned (Some d)
         \<and> inputs = pre @ Line l # unread sel
         \<and> py_int (py_strip l) = Some n \<and> 1 \<le> n \<and> n \<le> int (length devices)
         \<and> d = devices ! nat (n - 1) \<and> d \<in> set devices)"

text \<open>Scenario A of the specification: three devices, the second one unnamed.\<close>

definition scenario_devices :: "(string \<times> string option) list" where
  "scenario_devices = [(''AA:01'', Some ''Speaker''), (''AA:02'', None), (''AA:03'', Some ''Phone'')]"

text \<open>What \<open>discover_devices\<close> prints before the scan when called with the default
  duration, and three backends used as examples: one whose scan fails, one whose scan
  finds nothing, one whose service query fails.\<close>

definition scanning_lines :: "out_item list" where
  "scanning_lines = [PrintLn ''[*] Scanning for Bluetooth devices (duration: 8s)...'',
                     PrintLn (''[*] Please wait...'' @ nl)]"

definition no_adapter_backend :: backend where
  "no_adapter_backend =
     \<lparr>bt_discover_devices = (\<lambda>duration. Raised (OtherException ''no adapter'')),
      bt_find_service = (\<lambda>address. Returned [])\<rparr>"

definition nothing_found_backend :: backend where
  "nothing_found_backend =
     \<lparr>bt_discover_devices = (\<lambda>duration. Returned []),
      bt_find_service = (\<lambda>address. Returned [])\<rparr>"


section \<open>Properties of the selector\<close>

lemma catalog_emit: "catalog (emit items r) = catalog r"
  and outcome_emit: "outcome (emit items r) = outcome r"
  and unread_emit: "unread (emit items r) = unread r"
  and printed_emit: "printed (emit items r) = items @ printed r"
  by (simp_all add: emit_def)

lemma select_loop_quit:
  "py_lower (py_strip l) = ''q'' \<Longrightarrow>
   select_loop p devices (Line l # rest) =
     \<lparr>outcome = Returned None, unread = rest, printed = [Prompt p], catalog = devices\<rparr>"
  by (simp add: select_loop.simps(3))

lemma select_loop_invalid:
  "py_lower (py_strip l) \<noteq> ''q'' \<Longrightarrow> py_int (py_strip l) = None \<Longrightarrow>
   select_loop p devices (Line l # rest) =
     emit [Prompt p, PrintLn invalid_notice] (select_loop p devices rest)"
  by (simp add: select_loop.simps(3))

lemma select_loop_range:
  "py_lower (py_strip l) \<noteq> ''q'' \<Longrightarrow> py_int (py_strip l) = Some n \<Longrightarrow>
   n < 1 \<or> int (length devices) < n \<Longrightarrow>
   select_loop p devices (Line l # rest) =
     emit [Prompt p, PrintLn (range_notice (length devices))] (select_loop p devices rest)"
  by (auto simp: select_loop.simps(3))

lemma select_loop_pick:
  "py_lower (py_strip l) \<noteq> ''q'' \<Longrightarrow> py_int (py_strip l) = Some n \<Longrightarrow>
   1 \<le> n \<Longrightarrow> n \<le> int (length devices) \<Longrightarrow>
   select_loop p devices (Line l # rest) =
     \<lparr>outcome = Returned (Some (devices ! nat (n - 1))), unread = rest,
      printed = [Prompt p], catalog = devices\<rparr>"
  by (simp add: select_loop.simps(3))

lemma select_loop_catalog: "catalog (select_loop p devices inputs) = devices"
  by (induction p devices inputs rule: select_loop.induct)
     (auto simp: Let_def catalog_emit select_loop.simps(3) split: option.splits)

lemma picked_emit:
  assumes "picked devices rest r"
  shows "picked devices (ev # rest) (emit items r)"
proof -
  from assms obtain d pre l n where h: "outcome r = Returned (Some d)"
    "rest = pre @ Line l # unread r" "py_int (py_strip l) = Some n" "1 \<le> n"
    "n \<le> int (length devices)" "d = devices ! nat (n - 1)" "d \<in> set devices"
    unfolding picked_def by blast
  from h(2) have "ev # rest = (ev # pre) @ Line l # unread (emit items r)"
    by (simp add: unread_emit)
  with h show ?thesis unfolding picked_def
    by (metis outcome_emit)
qed

lemma select_loop_cases:
  "outcome (select_loop p devices inputs) = Returned None
   \<or> picked devices inputs (select_loop p devices inputs)
   \<or> (outcome (select_loop p devices inputs) = Raised (EOFError ''EOF when reading a line'')
         \<and> unread (select_loop p devices inputs) = [])"
proof (induction inputs)
  case Nil
  then show ?case by simp
next
  case (Cons ev rest)
  show ?case
  proof (cases ev)
    case Interrupt
    then show ?thesis by simp
  next
    case (Line l)
    show ?thesis
    proof (cases "py_lower (py_strip l) = ''q''")
      case True
      then show ?thesis unfolding Line by (simp add: select_loop_quit)
    next
      case notq: False
      show ?thesis
      proof (cases "py_int (py_strip l)")
        case None
        show ?thesis unfolding Line select_loop_invalid[OF notq None]
          using Cons.IH by (auto simp: outcome_emit unread_emit intro: picked_emit)
      next
        case (Some n)
        show ?thesis
        proof (cases "1 \<le> n \<and> n \<le> int (length devices)")
          case True
          then have "nat (n - 1) < length devices" by linarith
          then have "devices ! nat (n - 1) \<in> set devices" by simp
          then have "picked devices (Line l # rest)
             \<lparr>outcome = Returned (Some (devices ! nat (n - 1))), unread = rest,
              printed = [Prompt p], catalog = devices\<rparr>"
            unfolding picked_def using Some True by auto
          moreover from True have "select_loop p devices (Line l # rest) =
             \<lparr>outcome = Returned (Some (devices ! nat (n - 1))), unread = rest,
              printed = [Prompt p], catalog = devices\<rparr>"
            by (intro select_loop_pick[OF notq Some]) simp_all
          ultimately show ?thesis unfolding Line by simp
        next
          case False
          then have "n < 1 \<or> int (length devices) < n" by linarith
          from select_loop_range[OF notq Some this] show ?thesis unfolding Line
            using Cons.IH by (auto simp: outcome_emit unread_emit intro: picked_emit)
        qed
      qed
    qed
  qed
qed

text \<open>
  Claim C2. For a non-empty catalog and any input, \<open>select_device\<close> (in either script)
  ends in one of three ways: it returns "no selection"; it returns the catalog element at
  the 1-based index \<open>n\<close> parsed from the last line it read, which is element \<open>n - 1\<close> of
  the catalog and a member of it; or the input ran out and \<open>input()\<close> raised
  \<open>EOFError\<close>, so nothing is returned. No other value is ever returned.
\<close>

theorem select_device_returns_catalog_element:
  assumes "devices \<noteq> []"
    and "sel = select_device devices inputs \<or> sel = select_device_bleak devices inputs"
  shows "outcome sel = Returned None
    \<or> (\<exists>d pre l n. outcome sel = Returned (Some d) \<and> d \<in> set devices
          \<and> inputs = pre @ Line l # unread sel
          \<and> py_int (py_strip l) = Some n \<and> 1 \<le> n \<and> n \<le> int (length devices)
          \<and> d = devices ! nat (n - 1))
    \<or> (outcome sel = Raised (EOFError ''EOF when reading a line'') \<and> unread sel = [])"
proof -
  from assms(2) obtain p where sel: "sel = select_loop p devices inputs"
    unfolding select_device_def select_device_bleak_def by blast
  from select_loop_cases[of p devices inputs] show ?thesis
    unfolding sel picked_def by blast
qed

theorem select_device_returns_catalog_element_witness:
  "scenario_devices \<noteq> []
   \<and> outcome (select_device scenario_devices [Line ''5'', Line ''2'']) = Returned (Some (''AA:02'', None))
   \<and> (\<exists>d pre l n. outcome (select_device scenario_devices [Line ''5'', Line ''2'']) = Returned (Some d)
          \<and> d \<in> set scenario_devices
          \<and> [Line ''5'', Line ''2''] = pre @ Line l # unread (select_device scenario_devices [Line ''5'', Line ''2''])
          \<and> py_int (py_strip l) = Some n \<and> 1 \<le> n \<and> n \<le> int (length scenario_devices)
          \<and> d = scenario_devices ! nat (n - 1))"
proof -
  have h: "scenario_devices \<noteq> []" by (simp add: scenario_devices_def)
  have o: "outcome (select_device scenario_devices [Line ''5'', Line ''2''])
           = Returned (Some (''AA:02'', None))" by code_simp
  from select_device_returns_catalog_element[OF h disjI1[OF refl], of "[Line ''5'', Line ''2'']"]
  show ?thesis using h o by simp
qed

text \<open>
  Claim C3. For a non-empty catalog, a line whose stripped, lower-cased content is \<open>q\<close>
  makes \<open>select_device\<close> (in either script) return "no selection" at once: only the
  prompt has been written, the rest of the input is unread. The lines \<open>" Q "\<close>,
  \<open>"q"\<close> and \<open>"Q"\<close> are such lines.
\<close>

theorem select_device_quit_token:
  assumes "devices \<noteq> []"
  shows "(py_lower (py_strip l) = ''q'' \<longrightarrow>
            select_device devices (Line l # rest) =
              \<lparr>outcome = Returned None, unread = rest,
               printed = [Prompt select_prompt], catalog = devices\<rparr>
          \<and> select_device_bleak devices (Line l # rest) =
              \<lparr>outcome = Returned None, unread = rest,
               printed = [Prompt select_prompt_bleak], catalog = devices\<rparr>)
    \<and> (\<forall>q \<in> set ['' Q '', ''q'', ''Q''].
          outcome (select_device devices (Line q # rest)) = Returned None
        \<and> outcome (select_device_bleak devices (Line q # rest)) = Returned None)"
proof -
  have q: "py_lower (py_strip '' Q '') = ''q''" "py_lower (py_strip ''q'') = ''q''"
    "py_lower (py_strip ''Q'') = ''q''"
    by code_simp+
  show ?thesis
    unfolding select_device_def select_device_bleak_def
    using q by (simp add: select_loop_quit)
qed

theorem select_device_quit_token_witness:
  "scenario_devices \<noteq> [] \<and> py_lower (py_strip '' Q '') = ''q''
   \<and> '' Q '' \<in> set ['' Q '', ''q'', ''Q'']
   \<and> select_device scenario_devices [Line '' Q '', Line ''2''] =
       \<lparr>outcome = Returned None, unread = [Line ''2''],
        printed = [Prompt select_prompt], catalog = scenario_devices\<rparr>
   \<and> outcome (select_device_bleak scenario_devices [Line '' Q '', Line ''2'']) = Returned None"
proof -
  have h: "scenario_devices \<noteq> []" by (simp add: scenario_devices_def)
  have q: "py_lower (py_strip '' Q '') = ''q''" by code_simp
  from select_device_quit_token[OF h, of "'' Q ''" "[Line ''2'']"] q h
  show ?thesis by simp
qed

lemma select_loop_prompts_first:
  "\<exists>more. printed (select_loop p devices inputs) = Prompt p # more"
proof (cases inputs)
  case Nil
  then show ?thesis by simp
next
  case (Cons ev rest)
  show ?thesis
  proof (cases ev)
    case Interrupt
    with Cons show ?thesis by simp
  next
    case (Line l)
    show ?thesis unfolding Cons Line
      by (simp add: select_loop.simps(3) Let_def printed_emit split: option.splits)
  qed
qed

text \<open>
  Claim C4. For a non-empty catalog, a malformed line (not the quit token, and either not
  an integer literal or an integer below 1 or above the catalog length) does not end the
  classic \<open>select_device\<close>. What the call writes is the prompt, then the notice
  \<open>[!] Invalid input. Please enter a number or 'q' to quit.\<close> for a line that is not an
  integer literal, respectively \<open>[!] Please enter a number between 1 and\<close> the catalog
  length for an integer out of range, and then what the loop writes on the rest of the
  input, which starts with the prompt again. Its outcome and the input left unread are
  those of the loop on the rest of the input. The catalog is the same list after the call,
  on any input.
\<close>

theorem select_device_reprompts_on_malformed:
  assumes "devices \<noteq> []"
    and "py_lower (py_strip l) \<noteq> ''q''"
    and "py_int (py_strip l) = None
         \<or> (\<exists>n. py_int (py_strip l) = Some n \<and> (n < 1 \<or> int (length devices) < n))"
  shows "printed (select_device devices (Line l # rest)) =
           [Prompt ''[?] Enter device number to connect (or 'q' to quit): '',
            PrintLn (if py_int (py_strip l) = None
                     then ''[!] Invalid input. Please enter a number or 'q' to quit.''
                     else ''[!] Please enter a number between 1 and '' @ str_nat (length devices))]
           @ printed (select_device devices rest)
    \<and> (\<exists>more. printed (select_device devices rest) =
           Prompt ''[?] Enter device number to connect (or 'q' to quit): '' # more)
    \<and> outcome (select_device devices (Line l # rest)) = outcome (select_device devices rest)
    \<and> unread (select_device devices (Line l # rest)) = unread (select_device devices rest)
    \<and> catalog (select_device devices (Line l # rest)) = devices
    \<and> catalog (select_device devices inputs) = devices"
proof -
  let ?notice = "if py_int (py_strip l) = None then invalid_notice
                 else range_notice (length devices)"
  have step: "select_loop select_prompt devices (Line l # rest) =
           emit [Prompt select_prompt, PrintLn ?notice] (select_loop select_prompt devices rest)"
  proof (cases "py_int (py_strip l)")
    case None
    then show ?thesis using select_loop_invalid[OF assms(2) None] by simp
  next
    case (Some n)
    with assms(3) have "n < 1 \<or> int (length devices) < n" by simp
    from select_loop_range[OF assms(2) Some this] show ?thesis using Some by simp
  qed
  have p: "select_prompt = ''[?] Enter device number to connect (or 'q' to quit): ''"
    by (simp add: select_prompt_def squote_def)
  have i: "invalid_notice = ''[!] Invalid input. Please enter a number or 'q' to quit.''"
    by (simp add: invalid_notice_def squote_def)
  have a: "printed (select_device devices (Line l # rest)) =
           [Prompt ''[?] Enter device number to connect (or 'q' to quit): '',
            PrintLn (if py_int (py_strip l) = None
                     then ''[!] Invalid input. Please enter a number or 'q' to quit.''
                     else ''[!] Please enter a number between 1 and '' @ str_nat (length devices))]
           @ printed (select_device devices rest)"
    unfolding select_device_def step printed_emit
    by (simp add: p i range_notice_def)
  have b: "\<exists>more. printed (select_device devices rest) =
           Prompt ''[?] Enter device number to connect (or 'q' to quit): '' # more"
    using select_loop_prompts_first[of select_prompt devices rest]
    unfolding select_device_def p .
  have c: "outcome (select_device devices (Line l # rest)) = outcome (select_device devices rest)"
    unfolding select_device_def step by (rule outcome_emit)
  have d: "unread (select_device devices (Line l # rest)) = unread (select_device devices rest)"
    unfolding select_device_def step by (rule unread_emit)
  have e: "catalog (select_device devices (Line l # rest)) = devices"
    unfolding select_device_def by (rule select_loop_catalog)
  have f: "catalog (select_device devices inputs) = devices"
    unfolding select_device_def by (rule select_loop_catalog)
  from a b c d e f show ?thesis by (intro conjI)
qed

theorem select_device_reprompts_on_malformed_witness:
  "scenario_devices \<noteq> [] \<and> length scenario_devices = 3
   \<and> py_lower (py_strip ''abc'') \<noteq> ''q'' \<and> py_int (py_strip ''abc'') = None
   \<and> py_lower (py_strip ''0'') \<noteq> ''q'' \<and> py_int (py_strip ''0'') = Some 0
   \<and> py_lower (py_strip ''-2'') \<noteq> ''q'' \<and> py_int (py_strip ''-2'') = Some (- 2)
   \<and> py_lower (py_strip ''5'') \<noteq> ''q'' \<and> py_int (py_strip ''5'') = Some 5
   \<and> printed (select_device scenario_devices
         [Line ''abc'', Line ''0'', Line ''-2'', Line ''5'', Line ''2'', Line ''1'']) =
        [Prompt ''[?] Enter device number to connect (or 'q' to quit): '',
         PrintLn ''[!] Invalid input. Please enter a number or 'q' to quit.'',
         Prompt ''[?] Enter device number to connect (or 'q' to quit): '',
         PrintLn ''[!] Please enter a number between 1 and 3'',
         Prompt ''[?] Enter device number to connect (or 'q' to quit): '',
         PrintLn ''[!] Please enter a number between 1 and 3'',
         Prompt ''[?] Enter device number to connect (or 'q' to quit): '',
         PrintLn ''[!] Please enter a number between 1 and 3'',
         Prompt ''[?] Enter device number to connect (or 'q' to quit): '']
   \<and> outcome (select_device scenario_devices
         [Line ''abc'', Line ''0'', Line ''-2'', Line ''5'', Line ''2'', Line ''1''])
       = Returned (Some (''AA:02'', None))
   \<and> unread (select_device scenario_devices
         [Line ''abc'', Line ''0'', Line ''-2'', Line ''5'', Line ''2'', Line ''1'']) = [Line ''1'']
   \<and> catalog (select_device scenario_devices
         [Line ''abc'', Line ''0'', Line ''-2'', Line ''5'', Line ''2'', Line ''1'']) = scenario_devices"
proof -
  let ?D = scenario_devices
  have h: "?D \<noteq> []" by (simp add: scenario_devices_def)
  have len: "length ?D = 3" by (simp add: scenario_devices_def)
  have s3: "str_nat (length ?D) = ''3''" unfolding len by (simp add: str_nat.simps)
  have q1: "py_lower (py_strip ''abc'') \<noteq> ''q''" by code_simp
  have q2: "py_lower (py_strip ''0'') \<noteq> ''q''" by code_simp
  have q3: "py_lower (py_strip ''-2'') \<noteq> ''q''" by code_simp
  have q4: "py_lower (py_strip ''5'') \<noteq> ''q''" by code_simp
  have p1: "py_int (py_strip ''abc'') = None" by code_simp
  have p2: "py_int (py_strip ''0'') = Some 0" by code_simp
  have p3: "py_int (py_strip ''-2'') = Some (- 2)" by code_simp
  have p4: "py_int (py_strip ''5'') = Some 5" by code_simp
  have m1: "py_int (py_strip ''abc'') = None
      \<or> (\<exists>n. py_int (py_strip ''abc'') = Some n \<and> (n < 1 \<or> int (length ?D) < n))"
    using p1 by simp
  have m2: "py_int (py_strip ''0'') = None
      \<or> (\<exists>n. py_int (py_strip ''0'') = Some n \<and> (n < 1 \<or> int (length ?D) < n))"
    using p2 by simp
  have m3: "py_int (py_strip ''-2'') = None
      \<or> (\<exists>n. py_int (py_strip ''-2'') = Some n \<and> (n < 1 \<or> int (length ?D) < n))"
    using p3 by simp
  have m4: "py_int (py_strip ''5'') = None
      \<or> (\<exists>n. py_int (py_strip ''5'') = Some n \<and> (n < 1 \<or> int (length ?D) < n))"
    using p4 len by simp
  let ?r4 = "[Line ''2'', Line ''1'']"
  let ?r3 = "Line ''5'' # ?r4"
  let ?r2 = "Line ''-2'' # ?r3"
  let ?r1 = "Line ''0'' # ?r2"
  note t1 = select_device_reprompts_on_malformed[OF h q1 m1, of ?r1 "Line ''abc'' # ?r1"]
  note t2 = select_device_reprompts_on_malformed[OF h q2 m2, of ?r2 "[]"]
  note t3 = select_device_reprompts_on_malformed[OF h q3 m3, of ?r3 "[]"]
  note t4 = select_device_reprompts_on_malformed[OF h q4 m4, of ?r4 "[]"]
  have b: "select_device ?D ?r4 =
      \<lparr>outcome = Returned (Some (''AA:02'', None)), unread = [Line ''1''],
       printed = [Prompt ''[?] Enter device number to connect (or 'q' to quit): ''],
       catalog = ?D\<rparr>"
    by code_simp
  have pr: "printed (select_device ?D (Line ''abc'' # ?r1)) =
        [Prompt ''[?] Enter device number to connect (or 'q' to quit): '',
         PrintLn ''[!] Invalid input. Please enter a number or 'q' to quit.'',
         Prompt ''[?] Enter device number to connect (or 'q' to quit): '',
         PrintLn ''[!] Please enter a number between 1 and 3'',
         Prompt ''[?] Enter device number to connect (or 'q' to quit): '',
         PrintLn ''[!] Please enter a number between 1 and 3'',
         Prompt ''[?] Enter device number to connect (or 'q' to quit): '',
         PrintLn ''[!] Please enter a number between 1 and 3'',
         Prompt ''[?] Enter device number to connect (or 'q' to quit): '']"
    using t1[THEN conjunct1] t2[THEN conjunct1] t3[THEN conjunct1] t4[THEN conjunct1]
    by (simp add: p1 p2 p3 p4 s3 b)
  have oc: "outcome (select_device ?D (Line ''abc'' # ?r1)) = Returned (Some (''AA:02'', None))"
    using t1[THEN conjunct2, THEN conjunct2, THEN conjunct1]
      t2[THEN conjunct2, THEN conjunct2, THEN conjunct1]
      t3[THEN conjunct2, THEN conjunct2, THEN conjunct1]
      t4[THEN conjunct2, THEN conjunct2, THEN conjunct1]
    by (simp add: b)
  have ur: "unread (select_device ?D (Line ''abc'' # ?r1)) = [Line ''1'']"
    using t1[THEN conjunct2, THEN conjunct2, THEN conjunct2, THEN conjunct1]
      t2[THEN conjunct2, THEN conjunct2, THEN conjunct2, THEN conjunct1]
      t3[THEN conjunct2, THEN conjunct2, THEN conjunct2, THEN conjunct1]
      t4[THEN conjunct2, THEN conjunct2, THEN conjunct2, THEN conjunct1]
    by (simp add: b)
  have ct: "catalog (select_device ?D (Line ''abc'' # ?r1)) = ?D"
    by (rule t1[THEN conjunct2, THEN conjunct2, THEN conjunct2, THEN conjunct2, THEN conjunct1])
  from h len q1 p1 q2 p2 q3 p3 q4 p4 pr oc ur ct show ?thesis by (intro conjI)
qed

section \<open>Properties of the protocol-descriptor parser\<close>

lemma map_of_dict_set:
  "map_of (dict_set k v d) k' = (if k' = k then Some v else map_of d k')"
  by (induction d) auto

lemma keys_dict_set: "fst ` set (dict_set k v d) = insert k (fst ` set d)"
proof (induction d)
  case Nil
  then show ?case by simp
next
  case (Cons kv d)
  obtain k' v' where kv: "kv = (k', v')" by (cases kv)
  show ?case
  proof (cases "k = k'")
    case True
    then show ?thesis unfolding kv by simp
  next
    case False
    then show ?thesis unfolding kv using Cons.IH by (simp add: insert_commute)
  qed
qed

lemma dict_set_fresh: "k \<notin> fst ` set d \<Longrightarrow> dict_set k v d = d @ [(k, v)]"
  by (induction d) (auto simp: image_iff)

lemma visit_keys: "fst ` set (visit B p d) \<subseteq> fst ` set p \<union> flag_names"
  unfolding visit_def flag_names_def
  by (auto simp: keys_dict_set Let_def split: option.splits list.splits)

lemma foldl_visit_keys: "fst ` set (foldl (visit B) p ds) \<subseteq> fst ` set p \<union> flag_names"
proof (induction ds arbitrary: p)
  case Nil
  then show ?case by simp
next
  case (Cons d ds)
  have "fst ` set (foldl (visit B) (visit B p d) ds) \<subseteq> fst ` set (visit B p d) \<union> flag_names"
    by (rule Cons.IH)
  also have "\<dots> \<subseteq> fst ` set p \<union> flag_names" using visit_keys[of B p d] by blast
  finally show ?case by simp
qed

lemma parse_error_fresh: "''parse_error'' \<notin> fst ` set (foldl (visit B) [] ds)"
proof -
  have "''parse_error'' \<notin> flag_names" by (simp add: flag_names_def)
  then show ?thesis using foldl_visit_keys[of B "[]" ds] by auto
qed

lemma py_iter_raises:
  "snd (py_iter v) = Some e \<Longrightarrow> is_Exception e \<and> fst (py_iter v) = []"
  by (cases v) auto

lemma visit_unrecognised:
  assumes "\<forall>x xs. seq_items d = Some (x # xs) \<longrightarrow>
     x \<noteq> PStr (L2CAP_UUID B) \<and> x \<noteq> PStr (RFCOMM_UUID B) \<and> x \<noteq> PStr (OBEX_UUID B)
     \<and> x \<noteq> PStr (TCP_UUID B) \<and> x \<noteq> PStr (UDP_UUID B)"
  shows "visit B p d = p"
  using assms unfolding visit_def by (auto split: option.splits list.splits)

lemma foldl_visit_unrecognised:
  assumes "\<forall>d \<in> set ds. \<forall>x xs. seq_items d = Some (x # xs) \<longrightarrow>
     x \<noteq> PStr (L2CAP_UUID B) \<and> x \<noteq> PStr (RFCOMM_UUID B) \<and> x \<noteq> PStr (OBEX_UUID B)
     \<and> x \<noteq> PStr (TCP_UUID B) \<and> x \<noteq> PStr (UDP_UUID B)"
  shows "foldl (visit B) p ds = p"
  using assms by (induction ds arbitrary: p) (simp_all add: visit_unrecognised)

lemma visit_keeps_channel:
  assumes "\<forall>x y ys. seq_items d = Some (x # y # ys) \<longrightarrow> x \<noteq> PStr (RFCOMM_UUID B)"
  shows "map_of (visit B p d) ''Channel'' = map_of p ''Channel''"
proof (cases "seq_items d")
  case None
  then show ?thesis by (simp add: visit_def)
next
  case (Some xs)
  show ?thesis
  proof (cases xs)
    case Nil
    with Some show ?thesis by (simp add: visit_def)
  next
    case (Cons x params)
    show ?thesis
    proof (cases params)
      case Nil
      with Some Cons show ?thesis by (simp add: visit_def map_of_dict_set)
    next
      case (Cons y ys)
      with Some \<open>xs = x # params\<close> assms have "x \<noteq> PStr (RFCOMM_UUID B)" by simp
      with Some \<open>xs = x # params\<close> show ?thesis
        by (simp add: visit_def map_of_dict_set Let_def)
    qed
  qed
qed

lemma visit_keeps_rfcomm:
  assumes "map_of p ''RFCOMM'' = Some (PBool True)"
  shows "map_of (visit B p d) ''RFCOMM'' = Some (PBool True)"
proof (cases "seq_items d")
  case None
  with assms show ?thesis by (simp add: visit_def)
next
  case (Some xs)
  show ?thesis
  proof (cases xs)
    case Nil
    with Some assms show ?thesis by (simp add: visit_def)
  next
    case (Cons x params)
    with Some assms show ?thesis
      by (simp add: visit_def map_of_dict_set Let_def)
  qed
qed

lemma foldl_visit_keeps:
  assumes "\<forall>d \<in> set ds. \<forall>x y ys. seq_items d = Some (x # y # ys) \<longrightarrow> x \<noteq> PStr (RFCOMM_UUID B)"
    and "map_of p ''RFCOMM'' = Some (PBool True)"
  shows "map_of (foldl (visit B) p ds) ''Channel'' = map_of p ''Channel''
       \<and> map_of (foldl (visit B) p ds) ''RFCOMM'' = Some (PBool True)"
  using assms
proof (induction ds arbitrary: p)
  case Nil
  then show ?case by simp
next
  case (Cons d ds)
  have a: "map_of (visit B p d) ''Channel'' = map_of p ''Channel''"
    using Cons.prems(1) by (intro visit_keeps_channel) simp
  have b: "map_of (visit B p d) ''RFCOMM'' = Some (PBool True)"
    using Cons.prems(2) by (rule visit_keeps_rfcomm)
  from Cons.IH[of "visit B p d"] Cons.prems(1) a b show ?case by simp
qed

lemma visit_rfcomm:
  assumes "seq_items d = Some (PStr (RFCOMM_UUID B) # c # rest)"
    and "L2CAP_UUID B \<noteq> RFCOMM_UUID B"
  shows "visit B p d = dict_set ''Channel'' c (dict_set ''RFCOMM'' (PBool True) p)"
  using assms unfolding visit_def by (auto simp: Let_def)


text \<open>
  Claim C8, as amended. For a descriptor list (a list or a tuple) and distinct L2CAP and
  RFCOMM identifiers: when the list has an element whose first item is the RFCOMM
  identifier and whose second item is 5, and no later element is an RFCOMM element that
  carries a parameter, the flag set returned has \<open>Channel\<close> equal to 5 and \<open>RFCOMM\<close>
  true. When the first item of every non-empty list or tuple element is none of the five
  recognised identifiers, the flag set returned is empty and no error is raised.
\<close>

theorem parse_protocol_descriptor_flags:
  assumes "proto_desc_list = PList descs \<or> proto_desc_list = PTuple descs"
  shows "(L2CAP_UUID B \<noteq> RFCOMM_UUID B \<and> descs = before @ d # after
          \<and> seq_items d = Some (PStr (RFCOMM_UUID B) # PInt 5 # rest)
          \<and> (\<forall>d' \<in> set after. \<forall>x y ys.
                seq_items d' = Some (x # y # ys) \<longrightarrow> x \<noteq> PStr (RFCOMM_UUID B))
          \<longrightarrow> (\<exists>p. parse_protocol_descriptor B proto_desc_list = Returned p
                  \<and> map_of p ''Channel'' = Some (PInt 5)
                  \<and> map_of p ''RFCOMM'' = Some (PBool True)))
    \<and> ((\<forall>e \<in> set descs. \<forall>x xs. seq_items e = Some (x # xs) \<longrightarrow>
            x \<noteq> PStr (L2CAP_UUID B) \<and> x \<noteq> PStr (RFCOMM_UUID B) \<and> x \<noteq> PStr (OBEX_UUID B)
            \<and> x \<noteq> PStr (TCP_UUID B) \<and> x \<noteq> PStr (UDP_UUID B))
          \<longrightarrow> parse_protocol_descriptor B proto_desc_list = Returned [])"
proof (intro conjI impI)
  have it: "py_iter proto_desc_list = (descs, None)" using assms by auto
  {
    assume h: "L2CAP_UUID B \<noteq> RFCOMM_UUID B \<and> descs = before @ d # after
          \<and> seq_items d = Some (PStr (RFCOMM_UUID B) # PInt 5 # rest)
          \<and> (\<forall>d' \<in> set after. \<forall>x y ys.
                seq_items d' = Some (x # y # ys) \<longrightarrow> x \<noteq> PStr (RFCOMM_UUID B))"
    let ?p0 = "foldl (visit B) [] before"
    let ?p1 = "dict_set ''Channel'' (PInt 5) (dict_set ''RFCOMM'' (PBool True) ?p0)"
    from h have d: "seq_items d = Some (PStr (RFCOMM_UUID B) # PInt 5 # rest)"
      and ne: "L2CAP_UUID B \<noteq> RFCOMM_UUID B" and split: "descs = before @ d # after"
      and later: "\<forall>d' \<in> set after. \<forall>x y ys.
                seq_items d' = Some (x # y # ys) \<longrightarrow> x \<noteq> PStr (RFCOMM_UUID B)"
      by blast+
    have v: "visit B ?p0 d = ?p1" using d ne by (rule visit_rfcomm)
    have r: "map_of ?p1 ''RFCOMM'' = Some (PBool True)" by (simp add: map_of_dict_set)
    have c: "map_of ?p1 ''Channel'' = Some (PInt 5)" by (simp add: map_of_dict_set)
    have f: "foldl (visit B) [] descs = foldl (visit B) ?p1 after"
      unfolding split using v by simp
    from foldl_visit_keeps[OF later r] c
    have "map_of (foldl (visit B) [] descs) ''Channel'' = Some (PInt 5)
        \<and> map_of (foldl (visit B) [] descs) ''RFCOMM'' = Some (PBool True)"
      unfolding f by simp
    then show "\<exists>p. parse_protocol_descriptor B proto_desc_list = Returned p
                  \<and> map_of p ''Channel'' = Some (PInt 5)
                  \<and> map_of p ''RFCOMM'' = Some (PBool True)"
      by (simp add: parse_protocol_descriptor_def parse_iteration_def it)
  }
  {
    assume u: "\<forall>e \<in> set descs. \<forall>x xs. seq_items e = Some (x # xs) \<longrightarrow>
            x \<noteq> PStr (L2CAP_UUID B) \<and> x \<noteq> PStr (RFCOMM_UUID B) \<and> x \<noteq> PStr (OBEX_UUID B)
            \<and> x \<noteq> PStr (TCP_UUID B) \<and> x \<noteq> PStr (UDP_UUID B)"
    have "foldl (visit B) [] descs = []"
      using u by (rule foldl_visit_unrecognised)
    then show "parse_protocol_descriptor B proto_desc_list = Returned []"
      by (simp add: parse_protocol_descriptor_def parse_iteration_def it)
  }
qed

theorem parse_protocol_descriptor_flags_witness:
  "L2CAP_UUID pybluez_uuids \<noteq> RFCOMM_UUID pybluez_uuids
   \<and> parse_protocol_descriptor pybluez_uuids
        (PList [PList [PStr ''0100''], PList [PStr ''0003'', PInt 5], PList [PStr ''0003'']])
      = Returned [(''L2CAP'', PBool True), (''RFCOMM'', PBool True), (''Channel'', PInt 5)]
   \<and> (\<exists>p. parse_protocol_descriptor pybluez_uuids
        (PList [PList [PStr ''0100''], PList [PStr ''0003'', PInt 5], PList [PStr ''0003'']])
          = Returned p
        \<and> map_of p ''Channel'' = Some (PInt 5) \<and> map_of p ''RFCOMM'' = Some (PBool True))
   \<and> parse_protocol_descriptor pybluez_uuids
        (PTuple [PList [PStr ''ffff'', PInt 1], PInt 3, PList []]) = Returned []"
proof -
  let ?B = pybluez_uuids
  let ?descs = "[PList [PStr ''0100''], PList [PStr ''0003'', PInt 5], PList [PStr ''0003'']]"
  have ne: "L2CAP_UUID ?B \<noteq> RFCOMM_UUID ?B" by (simp add: pybluez_uuids_def)
  have h: "L2CAP_UUID ?B \<noteq> RFCOMM_UUID ?B
      \<and> ?descs = [PList [PStr ''0100'']] @ PList [PStr ''0003'', PInt 5] # [PList [PStr ''0003'']]
      \<and> seq_items (PList [PStr ''0003'', PInt 5]) = Some (PStr (RFCOMM_UUID ?B) # PInt 5 # [])
      \<and> (\<forall>d' \<in> set [PList [PStr ''0003'']]. \<forall>x y ys.
            seq_items d' = Some (x # y # ys) \<longrightarrow> x \<noteq> PStr (RFCOMM_UUID ?B))"
    by (simp add: pybluez_uuids_def)
  have u: "\<forall>e \<in> set [PList [PStr ''ffff'', PInt 1], PInt 3, PList []]. \<forall>x xs.
        seq_items e = Some (x # xs) \<longrightarrow>
            x \<noteq> PStr (L2CAP_UUID ?B) \<and> x \<noteq> PStr (RFCOMM_UUID ?B) \<and> x \<noteq> PStr (OBEX_UUID ?B)
            \<and> x \<noteq> PStr (TCP_UUID ?B) \<and> x \<noteq> PStr (UDP_UUID ?B)"
    by (simp add: pybluez_uuids_def)
  have c: "parse_protocol_descriptor ?B (PList ?descs)
      = Returned [(''L2CAP'', PBool True), (''RFCOMM'', PBool True), (''Channel'', PInt 5)]"
    by (simp add: parse_protocol_descriptor_def parse_iteration_def visit_def pybluez_uuids_def)
  note a = parse_protocol_descriptor_flags[OF disjI1[OF refl], of ?B ?descs
      "[PList [PStr ''0100'']]" "PList [PStr ''0003'', PInt 5]" "[PList [PStr ''0003'']]" "[]",
      THEN conjunct1, THEN mp, OF h]
  note b = parse_protocol_descriptor_flags[OF disjI2[OF refl], of ?B
      "[PList [PStr ''ffff'', PInt 1], PInt 3, PList []]",
      THEN conjunct2, THEN mp, OF u]
  from ne c a b show ?thesis by (intro conjI)
qed

text \<open>
  The claim as stated fails: with two RFCOMM elements the later parameter replaces the
  earlier one, so a list that contains the element (RFCOMM, 5) yields \<open>Channel\<close> 7.
\<close>

theorem parse_protocol_descriptor_channel_overwritten:
  "seq_items (PList [PStr (RFCOMM_UUID pybluez_uuids), PInt 5])
     = Some [PStr (RFCOMM_UUID pybluez_uuids), PInt 5]
   \<and> parse_protocol_descriptor pybluez_uuids
       (PList [PList [PStr (RFCOMM_UUID pybluez_uuids), PInt 5],
               PList [PStr (RFCOMM_UUID pybluez_uuids), PInt 7]])
     = Returned [(''RFCOMM'', PBool True), (''Channel'', PInt 7)]
   \<and> map_of [(''RFCOMM'', PBool True), (''Channel'', PInt 7)] ''Channel'' \<noteq> Some (PInt 5)"
  by (simp add: parse_protocol_descriptor_def parse_iteration_def visit_def pybluez_uuids_def)

text \<open>
  Claim C9. \<open>parse_protocol_descriptor\<close> returns a flag set on every input: nothing
  propagates. When iterating over the input raises, the flag set is the single entry
  \<open>parse_error\<close> holding the text of the exception; when it does not, no \<open>parse_error\<close>
  entry is present. In general, for an iteration that yields \<open>items\<close> and then raises an
  \<open>Exception\<close>, the result is the flags collected from \<open>items\<close> followed by one
  \<open>parse_error\<close> entry with the exception's text.
\<close>

theorem parse_protocol_descriptor_catches:
  "(\<exists>p. parse_protocol_descriptor B v = Returned p)
   \<and> (snd (py_iter v) = Some e \<longrightarrow>
        parse_protocol_descriptor B v = Returned [(''parse_error'', PStr (exn_str e))])
   \<and> (snd (py_iter v) = None \<longrightarrow>
        (\<exists>p. parse_protocol_descriptor B v = Returned p \<and> ''parse_error'' \<notin> fst ` set p))
   \<and> (is_Exception x \<longrightarrow>
        (\<exists>flags. parse_iteration B (items, None) = Returned flags
           \<and> ''parse_error'' \<notin> fst ` set flags
           \<and> parse_iteration B (items, Some x)
               = Returned (flags @ [(''parse_error'', PStr (exn_str x))])))"
proof -
  have general: "is_Exception x \<longrightarrow>
        (\<exists>flags. parse_iteration B (items, None) = Returned flags
           \<and> ''parse_error'' \<notin> fst ` set flags
           \<and> parse_iteration B (items, Some x)
               = Returned (flags @ [(''parse_error'', PStr (exn_str x))]))"
    by (simp add: parse_iteration_def parse_error_fresh dict_set_fresh)
  have raised: "snd (py_iter v) = Some e \<longrightarrow>
        parse_protocol_descriptor B v = Returned [(''parse_error'', PStr (exn_str e))]"
  proof
    assume s: "snd (py_iter v) = Some e"
    from py_iter_raises[OF s] s show
      "parse_protocol_descriptor B v = Returned [(''parse_error'', PStr (exn_str e))]"
      by (simp add: parse_protocol_descriptor_def parse_iteration_def)
  qed
  have clean: "snd (py_iter v) = None \<longrightarrow>
        (\<exists>p. parse_protocol_descriptor B v = Returned p \<and> ''parse_error'' \<notin> fst ` set p)"
    by (simp add: parse_protocol_descriptor_def parse_iteration_def parse_error_fresh)
  have total: "\<exists>p. parse_protocol_descriptor B v = Returned p"
  proof (cases "snd (py_iter v)")
    case None
    with clean show ?thesis by blast
  next
    case (Some e')
    from py_iter_raises[OF Some] Some show ?thesis
      by (simp add: parse_protocol_descriptor_def parse_iteration_def)
  qed
  from total raised clean general show ?thesis by blast
qed


theorem parse_protocol_descriptor_catches_witness:
  "snd (py_iter (PInt 7)) = Some (TypeError (squote @ ''int'' @ squote @ '' object is not iterable''))
   \<and> parse_protocol_descriptor pybluez_uuids (PInt 7)
       = Returned [(''parse_error'', PStr (squote @ ''int'' @ squote @ '' object is not iterable''))]
   \<and> snd (py_iter (PList [PList [PStr ''0008'']])) = None
   \<and> parse_protocol_descriptor pybluez_uuids (PList [PList [PStr ''0008'']])
       = Returned [(''OBEX'', PBool True)]
   \<and> is_Exception (OtherException ''boom'')
   \<and> parse_iteration pybluez_uuids ([PList [PStr ''0004'']], Some (OtherException ''boom''))
       = Returned [(''TCP'', PBool True), (''parse_error'', PStr ''boom'')]"
proof -
  let ?B = pybluez_uuids
  let ?e = "TypeError (squote @ ''int'' @ squote @ '' object is not iterable'')"
  have s: "snd (py_iter (PInt 7)) = Some ?e" by simp
  note t = parse_protocol_descriptor_catches[of ?B "PInt 7" ?e "OtherException ''boom''"
      "[PList [PStr ''0004'']]"]
  from t s have a: "parse_protocol_descriptor ?B (PInt 7)
       = Returned [(''parse_error'', PStr (squote @ ''int'' @ squote @ '' object is not iterable''))]"
    by simp
  have n: "snd (py_iter (PList [PList [PStr ''0008'']])) = None" by simp
  have b: "parse_protocol_descriptor ?B (PList [PList [PStr ''0008'']])
       = Returned [(''OBEX'', PBool True)]"
    by (simp add: parse_protocol_descriptor_def parse_iteration_def visit_def pybluez_uuids_def)
  have x: "is_Exception (OtherException ''boom'')" by simp
  have f: "parse_iteration ?B ([PList [PStr ''0004'']], None) = Returned [(''TCP'', PBool True)]"
    by (simp add: parse_iteration_def visit_def pybluez_uuids_def)
  from t x f have c: "parse_iteration ?B ([PList [PStr ''0004'']], Some (OtherException ''boom''))
       = Returned [(''TCP'', PBool True), (''parse_error'', PStr ''boom'')]"
    by simp
  from s a n b x c show ?thesis by (intro conjI)
qed

section \<open>Properties of the service-class lookup\<close>

lemma service_classes_distinct: "distinct (map fst service_classes)"
  by code_simp

text \<open>
  Claim C7. \<open>get_service_class_name\<close> is a total function from values to strings. Its
  argument is normalised by \<open>uuid_str\<close>: a string is itself, an integer is its \<open>hex\<close>
  form. When the normalised string is a key of the table the result is the label the table
  pairs it with, so \<open>"0x1101"\<close> (and the integer \<open>0x1101\<close>) gives
  \<open>"Serial Port Profile (SPP)"\<close>; when it is not a key, as for \<open>"0xffff"\<close>, the result is
  the normalised string itself.
\<close>

theorem get_service_class_name_lookup:
  "get_service_class_name (PStr ''0x1101'') = ''Serial Port Profile (SPP)''
   \<and> get_service_class_name (PStr ''0xffff'') = ''0xffff''
   \<and> get_service_class_name (PInt 0x1101) = ''Serial Port Profile (SPP)''
   \<and> uuid_str (PStr s) = s \<and> uuid_str (PInt i) = py_hex i
   \<and> (uuid_str u \<in> fst ` set service_classes \<longrightarrow>
         (uuid_str u, get_service_class_name u) \<in> set service_classes)
   \<and> (uuid_str u \<notin> fst ` set service_classes \<longrightarrow> get_service_class_name u = uuid_str u)"
proof -
  have a: "get_service_class_name (PStr ''0x1101'') = ''Serial Port Profile (SPP)''"
    by code_simp
  have b: "get_service_class_name (PStr ''0xffff'') = ''0xffff''"
    by code_simp
  have c: "get_service_class_name (PInt 0x1101) = ''Serial Port Profile (SPP)''"
    by (simp add: get_service_class_name_def service_classes_def py_hex_def hex_nat.simps
        hex_digit_def)
  have d: "uuid_str u \<in> fst ` set service_classes \<longrightarrow>
         (uuid_str u, get_service_class_name u) \<in> set service_classes"
  proof
    assume "uuid_str u \<in> fst ` set service_classes"
    then obtain l where l: "map_of service_classes (uuid_str u) = Some l"
      by (metis map_of_eq_None_iff not_Some_eq)
    then have "get_service_class_name u = l" by (simp add: get_service_class_name_def)
    with map_of_SomeD[OF l] show "(uuid_str u, get_service_class_name u) \<in> set service_classes"
      by simp
  qed
  have e: "uuid_str u \<notin> fst ` set service_classes \<longrightarrow> get_service_class_name u = uuid_str u"
  proof
    assume "uuid_str u \<notin> fst ` set service_classes"
    then have "map_of service_classes (uuid_str u) = None" by (simp add: map_of_eq_None_iff)
    then show "get_service_class_name u = uuid_str u" by (simp add: get_service_class_name_def)
  qed
  from a b c d e show ?thesis by simp
qed

theorem get_service_class_name_lookup_witness:
  "uuid_str (PInt 0x110b) \<in> fst ` set service_classes
   \<and> (uuid_str (PInt 0x110b), get_service_class_name (PInt 0x110b)) \<in> set service_classes
   \<and> get_service_class_name (PInt 0x110b) = ''Audio Sink''
   \<and> uuid_str (PTuple [PInt 1]) \<notin> fst ` set service_classes
   \<and> get_service_class_name (PTuple [PInt 1]) = ''(1,)''"
proof -
  have k: "uuid_str (PInt 0x110b) = ''0x110b''"
    by (simp add: py_hex_def hex_nat.simps hex_digit_def)
  have m: "uuid_str (PInt 0x110b) \<in> fst ` set service_classes"
    unfolding k by (simp add: service_classes_def)
  have t: "uuid_str (PTuple [PInt 1]) = ''(1,)''" by code_simp
  have n: "uuid_str (PTuple [PInt 1]) \<notin> fst ` set service_classes"
    unfolding t by (simp add: service_classes_def)
  have v: "get_service_class_name (PInt 0x110b) = ''Audio Sink''"
    by (simp add: get_service_class_name_def service_classes_def py_hex_def hex_nat.simps
        hex_digit_def)
  note g1 = get_service_class_name_lookup[of _ _ "PInt 0x110b", THEN conjunct2, THEN conjunct2,
      THEN conjunct2, THEN conjunct2, THEN conjunct2, THEN conjunct1, THEN mp, OF m]
  note g2 = get_service_class_name_lookup[of _ _ "PTuple [PInt 1]", THEN conjunct2, THEN conjunct2,
      THEN conjunct2, THEN conjunct2, THEN conjunct2, THEN conjunct2, THEN mp, OF n]
  from m g1 v n g2 t show ?thesis by simp
qed


section \<open>Properties of the service report\<close>

lemma run_all_say_first:
  "run_all (say x # as) = (PrintLn x # fst (run_all as), snd (run_all as))"
  by (simp add: say_def)

text \<open>
  Claim C10. In the block printed for a service, a description, provider or host that is
  the empty string, or a port that is 0, gives the same block as a record without that
  field. The first three lines of every block are the two header lines and the name line;
  without a \<open>name\<close> field the name is the placeholder \<open><Unnamed Service>\<close>, and for a
  record with no field at all the block is these three lines only.
\<close>

theorem render_service_omits_falsy:
  "render_service B idx (s(''description'' \<mapsto> PStr [])) = render_service B idx (s(''description'' := None))
   \<and> render_service B idx (s(''provider'' \<mapsto> PStr [])) = render_service B idx (s(''provider'' := None))
   \<and> render_service B idx (s(''host'' \<mapsto> PStr [])) = render_service B idx (s(''host'' := None))
   \<and> render_service B idx (s(''port'' \<mapsto> PInt 0)) = render_service B idx (s(''port'' := None))
   \<and> take 3 (fst (render_service B idx s)) =
        [PrintLn (nl @ ''Service #'' @ str_nat idx), PrintLn (replicate 80 CHR ''-''),
         PrintLn (''  Name:        '' @ py_str (dict_get s ''name'' (PStr ''<Unnamed Service>'')))]
   \<and> dict_get (s(''name'' := None)) ''name'' (PStr ''<Unnamed Service>'') = PStr ''<Unnamed Service>''
   \<and> render_service B idx Map.empty =
        ([PrintLn (nl @ ''Service #'' @ str_nat idx), PrintLn (replicate 80 CHR ''-''),
          PrintLn ''  Name:        <Unnamed Service>''], None)"
proof -
  have d: "render_service B idx (s(''description'' \<mapsto> PStr [])) = render_service B idx (s(''description'' := None))"
    by (simp add: render_service_def dict_get_def)
  have p: "render_service B idx (s(''provider'' \<mapsto> PStr [])) = render_service B idx (s(''provider'' := None))"
    by (simp add: render_service_def dict_get_def)
  have h: "render_service B idx (s(''host'' \<mapsto> PStr [])) = render_service B idx (s(''host'' := None))"
    by (simp add: render_service_def dict_get_def)
  have q: "render_service B idx (s(''port'' \<mapsto> PInt 0)) = render_service B idx (s(''port'' := None))"
    by (simp add: render_service_def dict_get_def)
  have n: "take 3 (fst (render_service B idx s)) =
        [PrintLn (nl @ ''Service #'' @ str_nat idx), PrintLn (replicate 80 CHR ''-''),
         PrintLn (''  Name:        '' @ py_str (dict_get s ''name'' (PStr ''<Unnamed Service>'')))]"
    unfolding render_service_def run_all_say_first by simp
  have u: "dict_get (s(''name'' := None)) ''name'' (PStr ''<Unnamed Service>'') = PStr ''<Unnamed Service>''"
    by (simp add: dict_get_def)
  have e: "render_service B idx Map.empty =
        ([PrintLn (nl @ ''Service #'' @ str_nat idx), PrintLn (replicate 80 CHR ''-''),
          PrintLn ''  Name:        <Unnamed Service>''], None)"
    by (simp add: render_service_def dict_get_def say_def skip_def)
  from d p h q n u e show ?thesis by (intro conjI)
qed


section \<open>Properties of the classic scanner\<close>

lemma str_int_8: "str_int 8 = ''8''"
  by (simp add: str_int_def str_nat.simps)

lemma discover_devices_empty:
  "bt_discover_devices bk 8 = Returned [] \<Longrightarrow>
   discover_devices bk 8 = (scanning_lines, Returned [])"
  by (simp add: discover_devices_def scanning_lines_def str_int_8)

lemma discover_devices_caught:
  "bt_discover_devices bk 8 = Raised e \<Longrightarrow> is_Exception e \<Longrightarrow>
   discover_devices bk 8 =
     (scanning_lines @ [PrintLn (''[!] Error during device discovery: '' @ exn_str e)], Returned [])"
  by (simp add: discover_devices_def scanning_lines_def str_int_8)


text \<open>
  Claim C5. When the scan returns no device, or raises an \<open>Exception\<close> (which
  \<open>discover_devices\<close> catches and reports), the process writes the banner, the two
  scanning lines, the discovery-error notice in the second case, and the four lines of
  the checklist, and exits with status 1. No prompt is written and no input is read: the
  selector is not called.
\<close>

theorem no_devices_exit_1:
  assumes "bt_discover_devices bk 8 = Returned []
           \<or> (bt_discover_devices bk 8 = Raised e \<and> is_Exception e)"
  shows "script B bk inputs =
           ([PrintLn ''============================================================'',
             PrintLn ''  Bluetooth Device Scanner & SDP Service Lister'',
             PrintLn ''============================================================'',
             PrintLn [],
             PrintLn ''[*] Scanning for Bluetooth devices (duration: 8s)...'',
             PrintLn (''[*] Please wait...'' @ [CHR 0x0A])]
            @ (if bt_discover_devices bk 8 = Returned [] then []
               else [PrintLn (''[!] Error during device discovery: '' @ exn_str e)])
            @ [PrintLn ''[!] No devices found. Please ensure:'',
               PrintLn ''    - Bluetooth is enabled on this computer'',
               PrintLn ''    - Target devices are in pairing/discoverable mode'',
               PrintLn ''    - Target devices are within range''], 1)
       \<and> raised (main B bk inputs) = Some (SystemExit 1)
       \<and> stdin_left (main B bk inputs) = inputs
       \<and> (\<forall>p. Prompt p \<notin> set (fst (script B bk inputs)))"
proof -
  let ?notice = "if bt_discover_devices bk 8 = Returned [] then []
               else [PrintLn (''[!] Error during device discovery: '' @ exn_str e)]"
  have found: "discover_devices bk 8 = (scanning_lines @ ?notice, Returned [])"
    using assms discover_devices_empty[of bk] discover_devices_caught[of bk e] by auto
  have m: "main B bk inputs =
      \<lparr>written = print_banner @ scanning_lines @ ?notice @ no_devices_checklist,
       raised = Some (SystemExit 1), stdin_left = inputs\<rparr>"
    unfolding main_def found by (simp add: Let_def)
  have s: "script B bk inputs =
      (print_banner @ scanning_lines @ ?notice @ no_devices_checklist, 1)"
    unfolding script_def m by simp
  have banner: "print_banner =
      [PrintLn ''============================================================'',
       PrintLn ''  Bluetooth Device Scanner & SDP Service Lister'',
       PrintLn ''============================================================'',
       PrintLn []]"
    by (simp add: print_banner_def eval_nat_numeral)
  have lit: "script B bk inputs =
           ([PrintLn ''============================================================'',
             PrintLn ''  Bluetooth Device Scanner & SDP Service Lister'',
             PrintLn ''============================================================'',
             PrintLn [],
             PrintLn ''[*] Scanning for Bluetooth devices (duration: 8s)...'',
             PrintLn (''[*] Please wait...'' @ [CHR 0x0A])]
            @ ?notice
            @ [PrintLn ''[!] No devices found. Please ensure:'',
               PrintLn ''    - Bluetooth is enabled on this computer'',
               PrintLn ''    - Target devices are in pairing/discoverable mode'',
               PrintLn ''    - Target devices are within range''], 1)"
    unfolding s banner by (simp add: scanning_lines_def no_devices_checklist_def nl_def)
  have np: "\<forall>p. Prompt p \<notin> set (fst (script B bk inputs))"
    unfolding lit by simp
  from m have r: "raised (main B bk inputs) = Some (SystemExit 1)"
    and u: "stdin_left (main B bk inputs) = inputs" by simp_all
  from lit r u np show ?thesis by (intro conjI)
qed

theorem no_devices_exit_1_witness:
  "bt_discover_devices no_adapter_backend 8 = Raised (OtherException ''no adapter'')
   \<and> is_Exception (OtherException ''no adapter'')
   \<and> script pybluez_uuids no_adapter_backend [Line ''1''] =
        ([PrintLn ''============================================================'',
          PrintLn ''  Bluetooth Device Scanner & SDP Service Lister'',
          PrintLn ''============================================================'',
          PrintLn [],
          PrintLn ''[*] Scanning for Bluetooth devices (duration: 8s)...'',
          PrintLn (''[*] Please wait...'' @ [CHR 0x0A]),
          PrintLn ''[!] Error during device discovery: no adapter'',
          PrintLn ''[!] No devices found. Please ensure:'',
          PrintLn ''    - Bluetooth is enabled on this computer'',
          PrintLn ''    - Target devices are in pairing/discoverable mode'',
          PrintLn ''    - Target devices are within range''], 1)
   \<and> stdin_left (main pybluez_uuids no_adapter_backend [Line ''1'']) = [Line ''1'']
   \<and> bt_discover_devices nothing_found_backend 8 = Returned []
   \<and> script pybluez_uuids nothing_found_backend [Line ''1''] =
        ([PrintLn ''============================================================'',
          PrintLn ''  Bluetooth Device Scanner & SDP Service Lister'',
          PrintLn ''============================================================'',
          PrintLn [],
          PrintLn ''[*] Scanning for Bluetooth devices (duration: 8s)...'',
          PrintLn (''[*] Please wait...'' @ [CHR 0x0A]),
          PrintLn ''[!] No devices found. Please ensure:'',
          PrintLn ''    - Bluetooth is enabled on this computer'',
          PrintLn ''    - Target devices are in pairing/discoverable mode'',
          PrintLn ''    - Target devices are within range''], 1)
   \<and> stdin_left (main pybluez_uuids nothing_found_backend [Line ''1'']) = [Line ''1'']"
proof -
  have r: "bt_discover_devices no_adapter_backend 8 = Raised (OtherException ''no adapter'')"
    by (simp add: no_adapter_backend_def)
  have x: "is_Exception (OtherException ''no adapter'')" by simp
  have z: "bt_discover_devices nothing_found_backend 8 = Returned []"
    by (simp add: nothing_found_backend_def)
  note t = no_devices_exit_1[of no_adapter_backend "OtherException ''no adapter''"
      pybluez_uuids "[Line ''1'']", OF disjI2[OF conjI[OF r x]]]
  note v = no_devices_exit_1[of nothing_found_backend _ pybluez_uuids "[Line ''1'']",
      OF disjI1[OF z]]
  have a: "script pybluez_uuids no_adapter_backend [Line ''1''] =
        ([PrintLn ''============================================================'',
          PrintLn ''  Bluetooth Device Scanner & SDP Service Lister'',
          PrintLn ''============================================================'',
          PrintLn [],
          PrintLn ''[*] Scanning for Bluetooth devices (duration: 8s)...'',
          PrintLn (''[*] Please wait...'' @ [CHR 0x0A]),
          PrintLn ''[!] Error during device discovery: no adapter'',
          PrintLn ''[!] No devices found. Please ensure:'',
          PrintLn ''    - Bluetooth is enabled on this computer'',
          PrintLn ''    - Target devices are in pairing/discoverable mode'',
          PrintLn ''    - Target devices are within range''], 1)"
    using t[THEN conjunct1] r by simp
  have b: "stdin_left (main pybluez_uuids no_adapter_backend [Line ''1'']) = [Line ''1'']"
    by (rule t[THEN conjunct2, THEN conjunct2, THEN conjunct1])
  have c: "script pybluez_uuids nothing_found_backend [Line ''1''] =
        ([PrintLn ''============================================================'',
          PrintLn ''  Bluetooth Device Scanner & SDP Service Lister'',
          PrintLn ''============================================================'',
          PrintLn [],
          PrintLn ''[*] Scanning for Bluetooth devices (duration: 8s)...'',
          PrintLn (''[*] Please wait...'' @ [CHR 0x0A]),
          PrintLn ''[!] No devices found. Please ensure:'',
          PrintLn ''    - Bluetooth is enabled on this computer'',
          PrintLn ''    - Target devices are in pairing/discoverable mode'',
          PrintLn ''    - Target devices are within range''], 1)"
    using v[THEN conjunct1] z by simp
  have d: "stdin_left (main pybluez_uuids nothing_found_backend [Line ''1'']) = [Line ''1'']"
    by (rule v[THEN conjunct2, THEN conjunct2, THEN conjunct1])
  from r x a b z c d show ?thesis by (intro conjI)
qed





section \<open>Properties of discovery in the Bleak scanner\<close>

lemma py_sort_desc_sorted:
  "sorted_wrt (\<lambda>a b. key b \<le> key a) (py_sort_desc key xs)"
proof -
  have "sorted (map (\<lambda>x. - key x) (sort_key (\<lambda>x. - key x) xs))"
    by (rule sorted_sort_key)
  then show ?thesis
    unfolding py_sort_desc_def sorted_map by simp
qed

lemma py_sort_desc_stable:
  "filter (\<lambda>x. key x = k) (py_sort_desc key xs) = filter (\<lambda>x. key x = k) xs"
proof -
  have "filter (\<lambda>x. - key x = - k) (sort_key (\<lambda>x. - key x) xs)
      = filter (\<lambda>x. - key x = - k) xs"
    by (rule sort_key_stable)
  then show ?thesis unfolding py_sort_desc_def by simp
qed

lemma py_sort_desc_mset: "mset (py_sort_desc key xs) = mset xs"
  by (simp add: py_sort_desc_def)

text \<open>
  Claim C1, as amended. When the scan returns, \<open>discover_devices\<close> of the Bleak script
  returns the discovered devices (same entries, same multiplicities) in decreasing order
  of signal strength, devices of equal strength in discovery order, where a device
  without a reading counts as strength 0. For the readings -70, -40 and none, the order is
  none, -40, -70.
\<close>

theorem discover_devices_bleak_sorted:
  assumes "scan duration = Returned items"
  shows "\<exists>r. snd (discover_devices_bleak scan duration) = Returned r
     \<and> mset r = mset (map device_entry items)
     \<and> sorted_wrt (\<lambda>a b. rssi_of b \<le> rssi_of a) r
     \<and> (\<forall>k. filter (\<lambda>t. rssi_of t = k) r = filter (\<lambda>t. rssi_of t = k) (map device_entry items))
     \<and> (\<forall>addr dev. rssi_of (device_entry (addr, dev, None)) = 0)"
proof -
  have z: "\<forall>addr dev. rssi_of (device_entry (addr, dev, None)) = 0"
    by (auto simp: split_paired_all)
  have "snd (discover_devices_bleak scan duration)
        = Returned (py_sort_desc rssi_of (map device_entry items))"
    using assms by (simp add: discover_devices_bleak_def)
  with z show ?thesis
    by (simp add: py_sort_desc_mset py_sort_desc_sorted py_sort_desc_stable)
qed

theorem discover_devices_bleak_sorted_witness:
  "(\<lambda>d. Returned ble_scenario) (8::int) = Returned ble_scenario
   \<and> snd (discover_devices_bleak (\<lambda>d. Returned ble_scenario) 8)
       = Returned [(''C'', ''Silent'', 0), (''B'', ''Near'', - 40), (''A'', ''Far'', - 70)]
   \<and> (\<exists>r. snd (discover_devices_bleak (\<lambda>d. Returned ble_scenario) 8) = Returned r
     \<and> mset r = mset (map device_entry ble_scenario)
     \<and> sorted_wrt (\<lambda>a b. rssi_of b \<le> rssi_of a) r
     \<and> (\<forall>k. filter (\<lambda>t. rssi_of t = k) r = filter (\<lambda>t. rssi_of t = k) (map device_entry ble_scenario))
     \<and> (\<forall>addr dev. rssi_of (device_entry (addr, dev, None)) = 0))"
proof -
  have h: "(\<lambda>d. Returned ble_scenario) (8::int) = Returned ble_scenario" by simp
  have v: "snd (discover_devices_bleak (\<lambda>d. Returned ble_scenario) 8)
       = Returned [(''C'', ''Silent'', 0), (''B'', ''Near'', - 40), (''A'', ''Far'', - 70)]"
    by (simp add: discover_devices_bleak_def ble_scenario_def py_sort_desc_def name_or_unknown_def)
  from discover_devices_bleak_sorted[OF h] h v show ?thesis by (intro conjI)
qed


text \<open>
  The claim as stated fails: the device without a reading is not placed last, as the
  weakest, but first, since its strength counts as 0 and the readings are negative.
\<close>

theorem absent_rssi_sorts_first:
  "map rssi_of (map device_entry ble_scenario) = [- 70, - 40, 0]
   \<and> snd (discover_devices_bleak (\<lambda>d. Returned ble_scenario) 8)
       = Returned [(''C'', ''Silent'', 0), (''B'', ''Near'', - 40), (''A'', ''Far'', - 70)]
   \<and> snd (discover_devices_bleak (\<lambda>d. Returned ble_scenario) 8)
       \<noteq> Returned [(''B'', ''Near'', - 40), (''A'', ''Far'', - 70), (''C'', ''Silent'', 0)]"
  by (simp add: discover_devices_bleak_def ble_scenario_def py_sort_desc_def name_or_unknown_def)


end
